theory Spec2Isabelle
  imports Complex_Main
begin

section \<open>JavaScript numbers\<close>

text \<open>
  A JavaScript number is an IEEE 754 double: a finite value (a rational that a double can
  hold exactly; the two zeros are not told apart, as nothing in the program can), NaN, or
  an infinity (\<open>Infinity True\<close> is the positive one). Arithmetic computes the exact
  rational result and rounds it to the nearest double, ties to the even mantissa.
\<close>

datatype number = Fin rat | NaN | Infinity bool

text \<open>Powers of two and of ten with an integer exponent.\<close>

definition pow2 :: "int \<Rightarrow> rat" where
  "pow2 e = (if 0 \<le> e then 2 ^ nat e else 1 / 2 ^ nat (- e))"

definition pow10 :: "int \<Rightarrow> rat" where
  "pow10 e = (if 0 \<le> e then 10 ^ nat e else 1 / 10 ^ nat (- e))"

text \<open>
  The number of digits of a natural number in base \<open>b\<close>, and from it the integer
  logarithm of a positive rational: the \<open>e\<close> with \<open>b^e \<le> a < b^(e+1)\<close>.
\<close>

fun digitsIn :: "nat \<Rightarrow> nat \<Rightarrow> nat" where
  "digitsIn b n = (if b < 2 \<or> n = 0 then 0 else Suc (digitsIn b (n div b)))"

declare digitsIn.simps [simp del]

definition floorLog :: "nat \<Rightarrow> rat \<Rightarrow> int" where
  "floorLog b a =
     (let (n, d) = quotient_of a;
          e = int (digitsIn b (nat n)) - int (digitsIn b (nat d))
      in if (if 0 \<le> e then of_nat b ^ nat e else 1 / of_nat b ^ nat (- e)) \<le> a then e else e - 1)"

text \<open>Rounding to the nearest integer, a tie going to the even one.\<close>

definition roundHalfEven :: "rat \<Rightarrow> int" where
  "roundHalfEven x =
     (let f = \<lfloor>x\<rfloor>; r = x - of_int f
      in if r < 1 / 2 then f else if 1 / 2 < r then f + 1 else if even f then f else f + 1)"

text \<open>
  The magnitude of the double nearest to a positive rational: 53 significant bits, or
  fewer below the smallest normal number, where the last bit stays at \<open>2^-1074\<close>.
\<close>

definition roundedMagnitude :: "rat \<Rightarrow> rat" where
  "roundedMagnitude a =
     (let p = max (floorLog 2 a - 52) (- 1074)
      in of_int (roundHalfEven (a / pow2 p)) * pow2 p)"

definition roundDouble :: "rat \<Rightarrow> number" where
  "roundDouble q =
     (if q = 0 then Fin 0
      else let v = roundedMagnitude \<bar>q\<bar>
           in if pow2 1024 \<le> v then Infinity (0 < q)
              else Fin (if q < 0 then - v else v))"

subsection \<open>Number::toString\<close>

text \<open>
  A number is printed with the fewest significant digits that read back as the same
  double; of two such digit strings the one nearer to the number is taken, and the even
  one on a tie. The digits are then laid out as the language prescribes: plain decimal
  notation for a decimal exponent from -6 to 21, exponent notation outside.
\<close>

definition digitChar :: "nat \<Rightarrow> char" where
  "digitChar d = ''0123456789abcdef'' ! d"

fun showNat :: "nat \<Rightarrow> string" where
  "showNat n = (if n < 10 then [digitChar n] else showNat (n div 10) @ [digitChar (n mod 10)])"

declare showNat.simps [simp del]

fun stripZeros :: "string \<Rightarrow> string" where
  "stripZeros s = (if s \<noteq> [] \<and> last s = CHR ''0'' \<and> butlast s \<noteq> [] then stripZeros (butlast s) else s)"

declare stripZeros.simps [simp del]

text \<open>
  Whether the decimal \<open>c \<times> 10^e\<close> reads back as the number \<open>a\<close>, and the search for
  the shortest such decimal with \<open>k\<close>, \<open>k + 1\<close>, ... digits; 17 digits always
  suffice for a double.
\<close>

definition readsBack :: "rat \<Rightarrow> int \<Rightarrow> int \<Rightarrow> bool" where
  "readsBack a c e = (roundDouble (of_int c * pow10 e) = Fin a)"

function shortest :: "rat \<Rightarrow> int \<Rightarrow> nat \<Rightarrow> int \<times> int" where
  "shortest a n k =
     (let e = n - int k;
          lo = \<lfloor>a / pow10 e\<rfloor>;
          hi = lo + 1;
          dlo = a - of_int lo * pow10 e;
          dhi = of_int hi * pow10 e - a
      in if 17 < k then (lo, e)
         else if readsBack a lo e \<and> readsBack a hi e then
           (if dlo < dhi then (lo, e) else if dhi < dlo then (hi, e)
            else if even lo then (lo, e) else (hi, e))
         else if readsBack a lo e then (lo, e)
         else if readsBack a hi e then (hi, e)
         else shortest a n (Suc k))"
  by pat_completeness auto
termination
  by (relation "measure (\<lambda>(a, n, k). 18 - k)") auto

declare shortest.simps [simp del]

definition layout :: "string \<Rightarrow> int \<Rightarrow> string" where
  "layout ds n =
     (let k = int (length ds) in
      if k \<le> n \<and> n \<le> 21 then ds @ replicate (nat (n - k)) CHR ''0''
      else if 0 < n \<and> n \<le> 21 then take (nat n) ds @ ''.'' @ drop (nat n) ds
      else if - 6 < n \<and> n \<le> 0 then ''0.'' @ replicate (nat (- n)) CHR ''0'' @ ds
      else (if k = 1 then ds else [hd ds] @ ''.'' @ tl ds)
             @ ''e'' @ (if 0 \<le> n - 1 then ''+'' else ''-'') @ showNat (nat \<bar>n - 1\<bar>))"

definition showPositive :: "rat \<Rightarrow> string" where
  "showPositive a =
     (let n = floorLog 10 a + 1;
          (c, e) = shortest a n 1;
          ds = showNat (nat c)
      in layout (stripZeros ds) (e + int (length ds)))"

fun numberToString :: "number \<Rightarrow> string" where
  "numberToString NaN = ''NaN''"
| "numberToString (Infinity pos) = (if pos then ''Infinity'' else ''-Infinity'')"
| "numberToString (Fin q) =
     (if q = 0 then ''0'' else if q < 0 then ''-'' @ showPositive (- q) else showPositive q)"


subsection \<open>Reading a string as a number\<close>

text \<open>
  StringToNumber: white space around the text is dropped; the empty text is 0; a
  hexadecimal, octal or binary literal has no sign; a decimal literal may have a sign, a
  fraction and an exponent; \<open>Infinity\<close> may have a sign; any other text is NaN.
\<close>

definition isSpace :: "char \<Rightarrow> bool" where
  "isSpace c = (c \<in> {CHR 0x09, CHR 0x0A, CHR 0x0B, CHR 0x0C, CHR 0x0D, CHR 0x20, CHR 0xA0})"

definition trimJS :: "string \<Rightarrow> string" where
  "trimJS s = rev (dropWhile isSpace (rev (dropWhile isSpace s)))"

definition digitValue :: "char \<Rightarrow> nat" where
  "digitValue c =
     (let n = of_char c in
      if 48 \<le> n \<and> n \<le> 57 then n - 48
      else if 97 \<le> n \<and> n \<le> 102 then n - 87
      else if 65 \<le> n \<and> n \<le> 70 then n - 55
      else 16)"

fun readDigits :: "nat \<Rightarrow> nat \<Rightarrow> nat \<Rightarrow> string \<Rightarrow> nat \<times> nat \<times> string" where
  "readDigits b acc cnt [] = (acc, cnt, [])"
| "readDigits b acc cnt (c # cs) =
     (if digitValue c < b then readDigits b (acc * b + digitValue c) (Suc cnt) cs
      else (acc, cnt, c # cs))"

definition readRadix :: "nat \<Rightarrow> string \<Rightarrow> number" where
  "readRadix b s =
     (case readDigits b 0 0 s of
        (v, cnt, rest) \<Rightarrow> if cnt = 0 \<or> rest \<noteq> [] then NaN else roundDouble (of_nat v))"

definition readExponent :: "string \<Rightarrow> int option" where
  "readExponent s =
     (if s = [] then Some 0
      else if hd s = CHR ''e'' \<or> hd s = CHR ''E'' then
        (let t = tl s;
             neg = (t \<noteq> [] \<and> hd t = CHR ''-'');
             u = (if t \<noteq> [] \<and> (hd t = CHR ''-'' \<or> hd t = CHR ''+'') then tl t else t)
         in case readDigits 10 0 0 u of
              (v, cnt, rest) \<Rightarrow>
                if cnt = 0 \<or> rest \<noteq> [] then None
                else Some (if neg then - int v else int v))
      else None)"

definition readDecimal :: "string \<Rightarrow> number" where
  "readDecimal s =
     (let neg = (s \<noteq> [] \<and> hd s = CHR ''-'');
          u = (if s \<noteq> [] \<and> (hd s = CHR ''-'' \<or> hd s = CHR ''+'') then tl s else s)
      in if u = ''Infinity'' then Infinity (\<not> neg)
         else case readDigits 10 0 0 u of
           (ip, ic, r1) \<Rightarrow>
             (case (if r1 \<noteq> [] \<and> hd r1 = CHR ''.'' then readDigits 10 0 0 (tl r1) else (0, 0, r1)) of
                (fp, fc, r2) \<Rightarrow>
                  if ic + fc = 0 then NaN
                  else (case readExponent r2 of
                          None \<Rightarrow> NaN
                        | Some e \<Rightarrow>
                            roundDouble ((if neg then - 1 else 1)
                              * (of_nat ip + of_nat fp / 10 ^ fc) * pow10 e))))"

definition stringToNumber :: "string \<Rightarrow> number" where
  "stringToNumber s =
     (let t = trimJS s in
      if t = [] then Fin 0
      else if take 2 t = ''0x'' \<or> take 2 t = ''0X'' then readRadix 16 (drop 2 t)
      else if take 2 t = ''0o'' \<or> take 2 t = ''0O'' then readRadix 8 (drop 2 t)
      else if take 2 t = ''0b'' \<or> take 2 t = ''0B'' then readRadix 2 (drop 2 t)
      else readDecimal t)"

text \<open>\<open>x + d\<close> on numbers, for a finite \<open>d\<close>.\<close>

fun numberAdd :: "number \<Rightarrow> rat \<Rightarrow> number" where
  "numberAdd (Fin q) d = roundDouble (q + d)"
| "numberAdd x d = x"

section \<open>JSON values as the program sees them\<close>

text \<open>
  The program (src/index.js) receives a dereferenced JSON Schema: a tree of plain JSON
  values. It is dynamically typed, so every value the tree can hold is a \<open>json\<close>:
  \<^item> \<open>JNum\<close> carries a JavaScript number (see the section on numbers above);
  \<^item> \<open>JStr\<close> carries the characters of a string (8-bit characters);
  \<^item> \<open>JObj\<close> carries the own properties of an object as an association list in the
    object's property order, which is the order \<open>for (name in obj)\<close> enumerates
    them; keys are distinct.
  \<open>undefined\<close> is \<open>None\<close> of \<open>json option\<close>: it is what a missing property
  reads as and what a missing argument is.
\<close>

datatype json =
    JNull
  | JBool bool
  | JNum number
  | JStr string
  | JArr "json list"
  | JObj "(string \<times> json) list"

text \<open>
  \<open>TypeError\<close> is the exception JavaScript raises on \<open>null.type\<close> or on calling
  something that is not a function; \<open>CompositionUnsupported\<close> is the
  \<open>Error('2DO: merge properties in recursive order')\<close> of line 169.
\<close>

datatype error = TypeError | CompositionUnsupported

text \<open>
  \<open>item.key\<close> for the keyword names the program reads (type, properties, required,
  format, pattern, minLength, maxLength, enum, default, title, description, minimum,
  maximum, exclusiveMinimum, exclusiveMaximum, items, minItems, maxItems, allOf). None of
  them is a member of a built-in prototype, so on a string, number, boolean or array
  they read as \<open>undefined\<close>. Reading a property of \<open>null\<close> throws; the callers
  test for \<open>JNull\<close> before they use \<open>getProp\<close>.
\<close>

fun getProp :: "json \<Rightarrow> string \<Rightarrow> json option" where
  "getProp (JObj kvs) k = map_of kvs k"
| "getProp _ k = None"

text \<open>JavaScript truthiness (ToBoolean) of a value or of \<open>undefined\<close>.\<close>

fun truthy :: "json option \<Rightarrow> bool" where
  "truthy None = False"
| "truthy (Some JNull) = False"
| "truthy (Some (JBool b)) = b"
| "truthy (Some (JNum x)) = (x \<noteq> Fin 0 \<and> x \<noteq> NaN)"
| "truthy (Some (JStr s)) = (s \<noteq> [])"
| "truthy (Some (JArr xs)) = True"
| "truthy (Some (JObj kvs)) = True"

text \<open>\<open>a || b\<close> on values.\<close>

definition orElse :: "json option \<Rightarrow> json option \<Rightarrow> json option" where
  "orElse a b = (if truthy a then a else b)"

subsection \<open>Strings\<close>

text \<open>
  ToString of a value, as a template literal and \<open>Array.prototype.join\<close> apply it.
  An array is its elements joined by commas, \<open>null\<close> elements rendered empty. A plain
  object is \<open>[object Object]\<close>, unless it has an own property named \<open>toString\<close>:
  in JSON data that property is not a function, and the conversion throws.
\<close>

fun toStringJS :: "json \<Rightarrow> error + string"
  and joinJS :: "json list \<Rightarrow> error + string" where
  "toStringJS JNull = Inr ''null''"
| "toStringJS (JBool b) = Inr (if b then ''true'' else ''false'')"
| "toStringJS (JNum x) = Inr (numberToString x)"
| "toStringJS (JStr s) = Inr s"
| "toStringJS (JArr xs) = joinJS xs"
| "toStringJS (JObj kvs) =
     (if ''toString'' \<in> fst ` set kvs then Inl TypeError else Inr ''[object Object]'')"
| "joinJS [] = Inr []"
| "joinJS (x # xs) =
     (case (if x = JNull then Inr [] else toStringJS x) of
        Inl e \<Rightarrow> Inl e
      | Inr s \<Rightarrow>
          (if xs = [] then Inr s
           else (case joinJS xs of Inl e \<Rightarrow> Inl e | Inr t \<Rightarrow> Inr (s @ '','' @ t))))"

text \<open>\<open>`${v || ''}`\<close>: the value if truthy, else the empty string, then ToString.\<close>

definition renderOrEmpty :: "json option \<Rightarrow> error + string" where
  "renderOrEmpty v = (case orElse v (Some (JStr [])) of None \<Rightarrow> Inr [] | Some j \<Rightarrow> toStringJS j)"

text \<open>
  \<open>JSON.stringify\<close> without indentation. QuoteJSONString escapes the double quote, the
  backslash and the control characters below 0x20; a number that is not finite is written
  \<open>null\<close>.
\<close>

definition escapeChar :: "char \<Rightarrow> string" where
  "escapeChar c =
     (if c = CHR 0x22 then [CHR 0x5C, CHR 0x22]
      else if c = CHR 0x5C then [CHR 0x5C, CHR 0x5C]
      else if c = CHR 0x08 then [CHR 0x5C, CHR ''b'']
      else if c = CHR 0x09 then [CHR 0x5C, CHR ''t'']
      else if c = CHR 0x0A then [CHR 0x5C, CHR ''n'']
      else if c = CHR 0x0C then [CHR 0x5C, CHR ''f'']
      else if c = CHR 0x0D then [CHR 0x5C, CHR ''r'']
      else if (of_char c :: nat) < 32
        then [CHR 0x5C, CHR ''u'', CHR ''0'', CHR ''0'',
              digitChar (of_char c div 16), digitChar (of_char c mod 16)]
      else [c])"

definition quoteJSON :: "string \<Rightarrow> string" where
  "quoteJSON s = CHR 0x22 # concat (map escapeChar s) @ [CHR 0x22]"

fun stringify :: "json \<Rightarrow> string"
  and stringifyElements :: "json list \<Rightarrow> string"
  and stringifyMembers :: "(string \<times> json) list \<Rightarrow> string" where
  "stringify JNull = ''null''"
| "stringify (JBool b) = (if b then ''true'' else ''false'')"
| "stringify (JNum x) = (case x of Fin q \<Rightarrow> numberToString x | _ \<Rightarrow> ''null'')"
| "stringify (JStr s) = quoteJSON s"
| "stringify (JArr xs) = ''['' @ stringifyElements xs @ '']''"
| "stringify (JObj kvs) = ''{'' @ stringifyMembers kvs @ ''}''"
| "stringifyElements [] = []"
| "stringifyElements (x # xs) =
     stringify x @ (if xs = [] then [] else '','' @ stringifyElements xs)"
| "stringifyMembers [] = []"
| "stringifyMembers (kv # kvs) =
     quoteJSON (fst kv) @ '':'' @ stringify (snd kv)
       @ (if kvs = [] then [] else '','' @ stringifyMembers kvs)"

text \<open>
  lodash \<open>padStart(string, length)\<close>: pads on the left with spaces when the string is
  shorter than \<open>length\<close>, up to that total length; a string that is already as long is
  returned as it is.
\<close>

definition padStart :: "string \<Rightarrow> nat \<Rightarrow> string" where
  "padStart s n = (if length s < n then replicate (n - length s) CHR '' '' @ s else s)"

section \<open>The Descriptor Formatter: createDocParameter (lines 70-89)\<close>

text \<open>Lines 72-74: the size suffix appended to the type.\<close>

definition sizeSuffix :: "json option \<Rightarrow> json option \<Rightarrow> error + string" where
  "sizeSuffix sizeMin sizeMax =
     (if truthy sizeMin \<or> truthy sizeMax then
        (case renderOrEmpty sizeMin of
           Inl e \<Rightarrow> Inl e
         | Inr lo \<Rightarrow>
             (case renderOrEmpty sizeMax of
                Inl e \<Rightarrow> Inl e
              | Inr hi \<Rightarrow> Inr (''{'' @ lo @ ''..'' @ hi @ ''}'')))
      else Inr [])"

text \<open>
  Line 80: the \<open>filter\<close> callback returns the quoted string for a string member (never
  empty, so truthy) and the member itself otherwise: a member is kept when it is a string
  or truthy.
\<close>

fun keptByFilter :: "json \<Rightarrow> bool" where
  "keptByFilter (JStr s) = True"
| "keptByFilter v = truthy (Some v)"

text \<open>
  Lines 76-83: the allowed-values suffix. A truthy value that is neither a string nor an
  array has no \<open>filter\<close> method, and the call throws.
\<close>

definition allowedSuffix :: "json option \<Rightarrow> error + string" where
  \<open>allowedSuffix allowedValues =
     (if truthy allowedValues then
        (case allowedValues of
           Some (JStr s) \<Rightarrow> Inr (''="'' @ s @ ''"'')
         | Some (JArr xs) \<Rightarrow>
             (case joinJS (filter keptByFilter xs) of
                Inl e \<Rightarrow> Inl e
              | Inr joined \<Rightarrow> Inr (''="'' @ joined @ ''"''))
         | _ \<Rightarrow> Inl TypeError)
      else Inr [])\<close>

text \<open>Lines 85-86: the default suffix first, then the brackets of an optional field.\<close>

definition nameExpr :: "string \<Rightarrow> bool \<Rightarrow> json option \<Rightarrow> string" where
  "nameExpr name isRequired defaultValue =
     (let named = (if truthy defaultValue then name @ ''='' @ stringify (the defaultValue) else name)
      in if \<not> isRequired then ''['' @ named @ '']'' else named)"

definition createDocParameter ::
  "string \<Rightarrow> string \<Rightarrow> json option \<Rightarrow> json option \<Rightarrow> json option \<Rightarrow> bool \<Rightarrow>
   json option \<Rightarrow> json option \<Rightarrow> error + string" where
  "createDocParameter name type sizeMin sizeMax allowedValues isRequired defaultValue description =
     (case sizeSuffix sizeMin sizeMax of
        Inl e \<Rightarrow> Inl e
      | Inr sized \<Rightarrow>
          (case allowedSuffix allowedValues of
             Inl e \<Rightarrow> Inl e
           | Inr allowed \<Rightarrow>
               (case renderOrEmpty description of
                  Inl e \<Rightarrow> Inl e
                | Inr descr \<Rightarrow>
                    Inr (''{'' @ type @ sized @ allowed @ ''} ''
                           @ nameExpr name isRequired defaultValue @ '' '' @ descr))))"

section \<open>The Schema Tree Walker: iterateObjectReqursive (lines 91-159)\<close>

text \<open>
  What \<open>for (let name in obj)\<close> enumerates, with \<open>obj[name]\<close> beside each name.
  \<open>undefined\<close> is replaced by the default \<open>{}\<close>; \<open>null\<close>, numbers and booleans
  have nothing to enumerate; an array and a string enumerate their indices.
\<close>

definition forInEntries :: "json option \<Rightarrow> (string \<times> json) list" where
  "forInEntries obj =
     (case obj of
        Some (JObj kvs) \<Rightarrow> kvs
      | Some (JArr xs) \<Rightarrow> zip (map showNat [0..<length xs]) xs
      | Some (JStr s) \<Rightarrow> zip (map showNat [0..<length s]) (map (\<lambda>c. JStr [c]) s)
      | _ \<Rightarrow> [])"

text \<open>
  Line 93, \<open>obj.hasOwnProperty(name)\<close>. The method is looked up on the object itself:
  an own property named \<open>hasOwnProperty\<close> shadows the inherited method, and in JSON
  data it is not a function, so the call throws.
\<close>

definition hasOwnPropertyCall :: "json option \<Rightarrow> string \<Rightarrow> error + bool" where
  "hasOwnPropertyCall obj name =
     (if ''hasOwnProperty'' \<in> fst ` set (case obj of Some (JObj kvs) \<Rightarrow> kvs | _ \<Rightarrow> [])
      then Inl TypeError
      else Inr (name \<in> fst ` set (forInEntries obj)))"

text \<open>
  \<open>requiredItems.includes(name)\<close>, lines 108, 123, 135 and 148. A missing argument is
  the default \<open>[]\<close>. An array tests membership, a string tests for a substring
  (\<open>String.prototype.includes\<close>), and any other value has no such method.
\<close>

fun isInfixOf :: "string \<Rightarrow> string \<Rightarrow> bool" where
  "isInfixOf p [] = (p = [])"
| "isInfixOf p (c # cs) = (take (length p) (c # cs) = p \<or> isInfixOf p cs)"

definition requiredIncludes :: "json option \<Rightarrow> string \<Rightarrow> error + bool" where
  "requiredIncludes requiredItems name =
     (case requiredItems of
        None \<Rightarrow> Inr False
      | Some (JArr xs) \<Rightarrow> Inr (JStr name \<in> set xs)
      | Some (JStr s) \<Rightarrow> Inr (isInfixOf name s)
      | _ \<Rightarrow> Inl TypeError)"

text \<open>Line 104: the type label of a string field.\<close>

definition stringType :: "json \<Rightarrow> error + string" where
  "stringType item =
     (let formatOrPattern = orElse (getProp item ''format'') (getProp item ''pattern'')
      in if truthy formatOrPattern then
           (case toStringJS (the formatOrPattern) of
              Inl e \<Rightarrow> Inl e
            | Inr s \<Rightarrow> Inr (''string / '' @ s))
         else Inr ''string'')"

text \<open>\<open>item.title || item.description\<close>.\<close>

definition describedBy :: "json \<Rightarrow> json option" where
  "describedBy item = orElse (getProp item ''title'') (getProp item ''description'')"

text \<open>Lines 102-111: the descriptor of a string field.\<close>

definition stringLeaf :: "string \<Rightarrow> nat \<Rightarrow> json \<Rightarrow> json option \<Rightarrow> error + string" where
  "stringLeaf name depth item requiredItems =
     (case stringType item of
        Inl e \<Rightarrow> Inl e
      | Inr type \<Rightarrow>
          (case requiredIncludes requiredItems name of
             Inl e \<Rightarrow> Inl e
           | Inr isRequired \<Rightarrow>
               createDocParameter (padStart name depth) type
                 (getProp item ''minLength'') (getProp item ''maxLength'') (getProp item ''enum'')
                 isRequired (getProp item ''default'') (describedBy item)))"

text \<open>
  ToNumber of a value: \<open>null\<close> is 0, \<open>true\<close> is 1, a string is read as a numeric
  literal, an array or object is first converted to a string.
\<close>

fun toNumberJS :: "json \<Rightarrow> error + number" where
  "toNumberJS JNull = Inr (Fin 0)"
| "toNumberJS (JBool b) = Inr (Fin (if b then 1 else 0))"
| "toNumberJS (JNum x) = Inr x"
| "toNumberJS (JStr s) = Inr (stringToNumber s)"
| "toNumberJS v = (case toStringJS v of Inl e \<Rightarrow> Inl e | Inr s \<Rightarrow> Inr (stringToNumber s))"

text \<open>
  \<open>item.minimum + 1\<close> and \<open>item.maximum - 1\<close>. \<open>+\<close> concatenates when the left
  operand is or converts to a string and adds numbers otherwise; \<open>-\<close> always converts
  to a number.
\<close>

fun plusOne :: "json \<Rightarrow> error + json" where
  "plusOne (JStr s) = Inr (JStr (s @ ''1''))"
| "plusOne (JArr xs) =
     (case toStringJS (JArr xs) of Inl e \<Rightarrow> Inl e | Inr s \<Rightarrow> Inr (JStr (s @ ''1'')))"
| "plusOne (JObj kvs) =
     (case toStringJS (JObj kvs) of Inl e \<Rightarrow> Inl e | Inr s \<Rightarrow> Inr (JStr (s @ ''1'')))"
| "plusOne v =
     (case toNumberJS v of Inl e \<Rightarrow> Inl e | Inr x \<Rightarrow> Inr (JNum (numberAdd x 1)))"

definition minusOne :: "json \<Rightarrow> error + json" where
  "minusOne v =
     (case toNumberJS v of Inl e \<Rightarrow> Inl e | Inr x \<Rightarrow> Inr (JNum (numberAdd x (- 1))))"

text \<open>Lines 115 and 116: the constants \<open>minimum\<close> and \<open>maximum\<close>.\<close>

definition effectiveMinimum :: "json \<Rightarrow> error + json option" where
  "effectiveMinimum item =
     (if truthy (getProp item ''minimum'') then
        (if truthy (getProp item ''exclusiveMinimum'')
         then map_sum id Some (plusOne (the (getProp item ''minimum'')))
         else Inr (getProp item ''minimum''))
      else Inr (Some JNull))"

definition effectiveMaximum :: "json \<Rightarrow> error + json option" where
  "effectiveMaximum item =
     (if truthy (getProp item ''maximum'') then
        (if truthy (getProp item ''exclusiveMaximum'')
         then map_sum id Some (minusOne (the (getProp item ''maximum'')))
         else Inr (getProp item ''maximum''))
      else Inr (Some JNull))"

text \<open>Lines 117-126: the descriptor of a number or integer field.\<close>

definition numberLeaf :: "string \<Rightarrow> string \<Rightarrow> nat \<Rightarrow> json \<Rightarrow> json option \<Rightarrow> error + string" where
  "numberLeaf type name depth item requiredItems =
     (case effectiveMinimum item of
        Inl e \<Rightarrow> Inl e
      | Inr minimum \<Rightarrow>
          (case effectiveMaximum item of
             Inl e \<Rightarrow> Inl e
           | Inr maximum \<Rightarrow>
               (case requiredIncludes requiredItems name of
                  Inl e \<Rightarrow> Inl e
                | Inr isRequired \<Rightarrow>
                    createDocParameter (padStart name depth) type minimum maximum
                      (getProp item ''enum'') isRequired (getProp item ''default'')
                      (describedBy item))))"

text \<open>Lines 129-138: the descriptor of a boolean field.\<close>

definition booleanLeaf :: "string \<Rightarrow> nat \<Rightarrow> json \<Rightarrow> json option \<Rightarrow> error + string" where
  "booleanLeaf name depth item requiredItems =
     (case requiredIncludes requiredItems name of
        Inl e \<Rightarrow> Inl e
      | Inr isRequired \<Rightarrow>
          createDocParameter (padStart name depth) ''boolean'' (Some JNull) (Some JNull)
            (Some JNull) isRequired (getProp item ''default'') (describedBy item))"

text \<open>Lines 142-151: the descriptor of an array field without \<open>items\<close>.\<close>

definition arrayLeaf :: "string \<Rightarrow> nat \<Rightarrow> json \<Rightarrow> json option \<Rightarrow> error + string" where
  "arrayLeaf name depth item requiredItems =
     (case requiredIncludes requiredItems name of
        Inl e \<Rightarrow> Inl e
      | Inr isRequired \<Rightarrow>
          createDocParameter (padStart name depth) ''array''
            (getProp item ''minItems'') (getProp item ''maxItems'')
            (Some JNull) isRequired (getProp item ''default'') (describedBy item))"

text \<open>The measure under which the traversal terminates: the size of the tree still to visit.\<close>

fun jsize :: "json \<Rightarrow> nat" where
  "jsize (JStr s) = max 1 (length s)"
| "jsize (JArr xs) = Suc (sum_list (map jsize xs))"
| "jsize (JObj kvs) = Suc (sum_list (map (\<lambda>kv. jsize (snd kv)) kvs))"
| "jsize v = 1"

definition entriesSize :: "(string \<times> json) list \<Rightarrow> nat" where
  "entriesSize es = sum_list (map (\<lambda>kv. jsize (snd kv)) es)"

lemma entriesSize_simps [simp]:
  "entriesSize [] = 0" "entriesSize ((k, v) # es) = jsize v + entriesSize es"
  by (simp_all add: entriesSize_def)

lemma jsize_pos: "0 < jsize v"
  by (cases v) simp_all

lemma entriesSize_zip_le: "entriesSize (zip ks vs) \<le> sum_list (map jsize vs)"
proof (induction vs arbitrary: ks)
  case Nil then show ?case by simp
next
  case (Cons v vs) then show ?case by (cases ks) (auto intro: le_SucI trans_le_add2)
qed

lemma sum_chars: "sum_list (map jsize (map (\<lambda>c. JStr [c]) s)) = length s"
  by (induction s) simp_all

lemma entriesSize_forInEntries: "entriesSize (forInEntries (Some v)) \<le> jsize v"
proof (cases v)
  case (JStr s)
  have "entriesSize (zip (map showNat [0..<length s]) (map (\<lambda>c. JStr [c]) s)) \<le> length s"
    using entriesSize_zip_le [of "map showNat [0..<length s]" "map (\<lambda>c. JStr [c]) s"]
    by (simp only: sum_chars)
  with JStr show ?thesis by (simp add: forInEntries_def)
next
  case (JArr xs)
  with entriesSize_zip_le [of "map showNat [0..<length xs]" xs] show ?thesis
    by (simp add: forInEntries_def)
next
  case (JObj kvs)
  then show ?thesis by (simp add: forInEntries_def entriesSize_def)
qed (simp_all add: forInEntries_def)

lemma jsize_map_of: "map_of kvs k = Some v \<Longrightarrow> jsize v \<le> entriesSize kvs"
  by (induction kvs) (auto split: if_splits)

lemma jsize_getProp: "getProp item k = Some v \<Longrightarrow> jsize v < jsize item"
  by (cases item) (auto dest: jsize_map_of simp: entriesSize_def)

lemma entriesSize_getProp: "entriesSize (forInEntries (getProp item k)) < jsize item"
proof (cases "getProp item k")
  case None
  then show ?thesis by (simp add: forInEntries_def jsize_pos)
next
  case (Some v)
  then show ?thesis
    using entriesSize_forInEntries [of v] jsize_getProp [of item k v] by simp
qed

lemma sum_members_getProp:
  "getProp item k = Some (JArr ms) \<Longrightarrow> sum_list (map jsize ms) < jsize item"
  using jsize_getProp [of item k "JArr ms"] by simp

text \<open>
  The loop of lines 92-158 over the entries still to enumerate, and the \<open>forEach\<close> of
  lines 153-155. \<open>return\<close> (lines 93 and 142) leaves the loop of the current call
  only; an exception leaves every call.
\<close>

function forIn ::
    "string list \<Rightarrow> json option \<Rightarrow> (string \<times> json) list \<Rightarrow> nat \<Rightarrow> json option \<Rightarrow>
     error + string list"
  and forEachMember :: "string list \<Rightarrow> json list \<Rightarrow> nat \<Rightarrow> error + string list" where
  "forIn accumulator obj [] depth requiredItems = Inr accumulator"
| "forIn accumulator obj ((name, item) # rest) depth requiredItems =
     (case hasOwnPropertyCall obj name of
        Inl e \<Rightarrow> Inl e
      | Inr False \<Rightarrow> Inr accumulator
      | Inr True \<Rightarrow>
          if item = JNull then Inl TypeError
          else if getProp item ''type'' = Some (JStr ''object'') then
            (case forIn accumulator (getProp item ''properties'')
                    (forInEntries (getProp item ''properties'')) (depth + 1)
                    (getProp item ''required'') of
               Inl e \<Rightarrow> Inl e
             | Inr accumulator' \<Rightarrow> forIn accumulator' obj rest depth requiredItems)
          else if getProp item ''type'' = Some (JStr ''string'') then
            (case stringLeaf name depth item requiredItems of
               Inl e \<Rightarrow> Inl e
             | Inr d \<Rightarrow> forIn (accumulator @ [d]) obj rest depth requiredItems)
          else if getProp item ''type'' = Some (JStr ''number'') then
            (case numberLeaf ''number'' name depth item requiredItems of
               Inl e \<Rightarrow> Inl e
             | Inr d \<Rightarrow> forIn (accumulator @ [d]) obj rest depth requiredItems)
          else if getProp item ''type'' = Some (JStr ''integer'') then
            (case numberLeaf ''integer'' name depth item requiredItems of
               Inl e \<Rightarrow> Inl e
             | Inr d \<Rightarrow> forIn (accumulator @ [d]) obj rest depth requiredItems)
          else if getProp item ''type'' = Some (JStr ''boolean'') then
            (case booleanLeaf name depth item requiredItems of
               Inl e \<Rightarrow> Inl e
             | Inr d \<Rightarrow> forIn (accumulator @ [d]) obj rest depth requiredItems)
          else if getProp item ''type'' = Some (JStr ''array'') then
            (if \<not> truthy (getProp item ''items'') then
               (case arrayLeaf name depth item requiredItems of
                  Inl e \<Rightarrow> Inl e
                | Inr d \<Rightarrow> Inr (accumulator @ [d]))
             else
               (case getProp item ''items'' of
                  Some (JArr members) \<Rightarrow>
                    (case forEachMember accumulator members (depth + 1) of
                       Inl e \<Rightarrow> Inl e
                     | Inr accumulator' \<Rightarrow> forIn accumulator' obj rest depth requiredItems)
                | _ \<Rightarrow> Inl TypeError))
          else forIn accumulator obj rest depth requiredItems)"
| "forEachMember accumulator [] depth = Inr accumulator"
| "forEachMember accumulator (v # vs) depth =
     (case forIn accumulator (Some v) (forInEntries (Some v)) depth None of
        Inl e \<Rightarrow> Inl e
      | Inr accumulator' \<Rightarrow> forEachMember accumulator' vs depth)"
  by pat_completeness auto

termination
proof (relation "measures
    [\<lambda>c. case c of Inl (a, obj, es, d, r) \<Rightarrow> entriesSize es
                  | Inr (a, vs, d) \<Rightarrow> sum_list (map jsize vs),
     \<lambda>c. case c of Inl _ \<Rightarrow> 0 | Inr _ \<Rightarrow> 1]", simp_all add: jsize_pos, goal_cases)
  case (1 obj name item rest b)
  show ?case
    using entriesSize_getProp [of item "''properties''"] by simp
next
  case (2 obj name item rest b x2 members)
  then show ?case
    using sum_members_getProp [of item "''items''" members] by simp
next
  case (3 v vs)
  show ?case
    using entriesSize_forInEntries [of v] by linarith
qed

definition iterateObjectReqursive ::
  "string list \<Rightarrow> json option \<Rightarrow> nat \<Rightarrow> json option \<Rightarrow> error + string list" where
  "iterateObjectReqursive accumulator obj depth requiredItems =
     forIn accumulator obj (forInEntries obj) depth requiredItems"

section \<open>The entry point: extractArgumentsFromSchema (lines 164-173)\<close>

definition extractArgumentsFromSchema :: "json \<Rightarrow> error + string list" where
  "extractArgumentsFromSchema schema =
     (if schema = JNull then Inl TypeError
      else if truthy (getProp schema ''allOf'') then Inl CompositionUnsupported
      else iterateObjectReqursive [] (getProp schema ''properties'') 0 None)"

section \<open>Reference definitions in the words of the specification\<close>

text \<open>
  A traversal emits a descriptor when its output is the accumulator it started from, then
  that descriptor, then whatever the properties after it add.
\<close>

definition emits :: "string list \<Rightarrow> string list \<Rightarrow> string \<Rightarrow> bool" where
  "emits accumulator out d = (\<exists>more. out = accumulator @ [d] @ more)"

text \<open>
  A size bound as the specification has it: a number, or absent (\<open>undefined\<close> or the
  \<open>null\<close> the Walker passes). Inside \<open>{min..max}\<close> a bound is written as the number
  is printed, and an absent bound, zero or NaN is left out. The suffix is there when at
  least one of the two bounds is truthy.
\<close>

fun isNumericBound :: "json option \<Rightarrow> bool" where
  "isNumericBound None = True"
| "isNumericBound (Some JNull) = True"
| "isNumericBound (Some (JNum x)) = True"
| "isNumericBound (Some v) = False"

fun spec_bound_text :: "json option \<Rightarrow> string" where
  "spec_bound_text (Some (JNum x)) = (if x = Fin 0 \<or> x = NaN then [] else numberToString x)"
| "spec_bound_text v = []"

definition spec_size_suffix :: "json option \<Rightarrow> json option \<Rightarrow> string" where
  "spec_size_suffix lo hi =
     (if truthy lo \<or> truthy hi
      then ''{'' @ spec_bound_text lo @ ''..'' @ spec_bound_text hi @ ''}''
      else [])"

section \<open>Rounding is exact on the integers up to \<open>2^53\<close>\<close>

lemma exponent_bound: "(2::nat) ^ k \<le> nat z \<Longrightarrow> z \<le> 2 ^ 53 \<Longrightarrow> k \<le> 53"
proof -
  assume a: "(2::nat) ^ k \<le> nat z" and b: "z \<le> 2 ^ 53"
  from b have "nat z \<le> nat (2 ^ 53)" by (rule nat_mono)
  also have "nat (2 ^ 53) = (2::nat) ^ 53" by (simp add: nat_power_eq)
  finally have "(2::nat) ^ k \<le> 2 ^ 53" using a by (rule order_trans [rotated])
  then show ?thesis by (simp only: power_increasing_iff one_less_numeral_iff semiring_norm)
qed

lemma roundHalfEven_int: "roundHalfEven (of_int m) = m"
  by (simp add: roundHalfEven_def Let_def)

lemma pow2_below: "k \<le> 52 \<Longrightarrow> pow2 (int k - 52) = 1 / 2 ^ (52 - k)"
proof (cases "k = 52")
  case True
  then show ?thesis by (simp add: pow2_def)
next
  case False
  assume "k \<le> 52"
  with False have lt: "k < 52" by simp
  then have "\<not> 0 \<le> int k - 52" by simp
  moreover from lt have "nat (- (int k - 52)) = 52 - k" by simp
  ultimately show ?thesis by (simp only: pow2_def if_False)
qed

lemma magnitude_small:
  assumes "k \<le> 52"
  shows "of_int (roundHalfEven (of_int z / pow2 (int k - 52))) * pow2 (int k - 52) = (of_int z :: rat)"
proof -
  have q: "(of_int z :: rat) / (1 / 2 ^ (52 - k)) = of_int (z * 2 ^ (52 - k))"
    by simp
  have nz: "(2::rat) ^ (52 - k) \<noteq> 0" by simp
  show ?thesis
    unfolding pow2_below [OF assms] q roundHalfEven_int
    using nz by (simp only: of_int_mult of_int_power of_int_numeral) simp
qed

lemma magnitude_top:
  assumes "z = 2 ^ 53"
  shows "of_int (roundHalfEven (of_int z / pow2 (53 - 52))) * pow2 (53 - 52) = (of_int z :: rat)"
proof -
  have pw: "pow2 (53 - 52) = 2" by (simp add: pow2_def)
  have q: "(of_int z :: rat) / 2 = of_int (2 ^ 52)" by (simp add: assms)
  show ?thesis
    unfolding pw q roundHalfEven_int by (simp add: assms)
qed

lemma below_overflow: "z \<le> 2 ^ 53 \<Longrightarrow> \<not> pow2 1024 \<le> (of_int z :: rat)"
proof -
  assume "z \<le> 2 ^ 53"
  then have "(of_int z :: rat) \<le> of_int (2 ^ 53)" by (simp only: of_int_le_iff)
  also have "\<dots> = 2 ^ 53" by simp
  also have "\<dots> < 2 ^ 1024" by (simp only: power_strict_increasing_iff one_less_numeral_iff semiring_norm)
  also have "\<dots> = pow2 1024" by (simp only: pow2_def) simp
  finally show ?thesis by simp
qed

lemma digitsIn_two_one: "digitsIn 2 (Suc 0) = Suc 0"
  by (simp add: digitsIn.simps [of 2 "Suc 0"] digitsIn.simps [of 2 0])

lemma digitsIn_two_bounds:
  "0 < n \<Longrightarrow> 2 ^ (digitsIn 2 n - 1) \<le> n \<and> n < 2 ^ digitsIn 2 n"
proof (induction n rule: less_induct)
  case (less n)
  have unfold: "digitsIn 2 n = Suc (digitsIn 2 (n div 2))"
    using less.prems by (subst digitsIn.simps) simp
  show ?case
  proof (cases "n div 2 = 0")
    case True
    with less.prems have "n = 1" by (simp add: div_eq_0_iff) 
    then show ?thesis by (simp add: digitsIn_two_one)
  next
    case False
    then have pos: "0 < n div 2" by simp
    have "n div 2 < n" using less.prems by simp
    from less.IH [OF this pos] have
      lo: "2 ^ (digitsIn 2 (n div 2) - 1) \<le> n div 2" and hi: "n div 2 < 2 ^ digitsIn 2 (n div 2)"
      by simp_all
    have k: "0 < digitsIn 2 (n div 2)"
      using pos by (subst digitsIn.simps) simp
    then obtain j where j: "digitsIn 2 (n div 2) = Suc j" by (cases "digitsIn 2 (n div 2)") auto
    from lo j have "2 * 2 ^ j \<le> 2 * (n div 2)" by simp
    also have "\<dots> \<le> n" by simp
    finally have a: "2 ^ Suc j \<le> n" by simp
    from hi j have "n div 2 + 1 \<le> 2 ^ Suc j" by simp
    then have "2 * (n div 2) + 2 \<le> 2 * 2 ^ Suc j" by simp
    moreover have "n < 2 * (n div 2) + 2" by presburger
    ultimately have b: "n < 2 ^ Suc (Suc j)" by simp
    from a b unfold j show ?thesis by simp
  qed
qed

lemma floorLog_two_int:
  assumes "0 < z"
  shows "floorLog 2 (of_int z) = int (digitsIn 2 (nat z)) - 1"
proof -
  from assms digitsIn_two_bounds [of "nat z"] have
    lo: "2 ^ (digitsIn 2 (nat z) - 1) \<le> nat z" and d: "0 < digitsIn 2 (nat z)"
    by (auto simp: digitsIn.simps [of 2 "nat z"])
  have one: "digitsIn 2 (nat 1) = 1"
    by (simp add: digitsIn_two_one)
  from d have e: "nat (int (digitsIn 2 (nat z)) - 1) = digitsIn 2 (nat z) - 1"
    by simp
  from lo assms have "(2::rat) ^ (digitsIn 2 (nat z) - 1) \<le> of_int z"
    by (metis of_int_of_nat_eq of_nat_le_iff of_nat_numeral of_nat_power int_nat_eq less_imp_le of_int_le_iff of_int_of_nat_eq)
  with d e one show ?thesis
    by (simp add: floorLog_def)
qed

lemma roundDouble_pos_int:
  assumes "0 < z" and "z \<le> 2 ^ 53"
  shows "roundDouble (of_int z) = Fin (of_int z)"
proof -
  define k where "k = digitsIn 2 (nat z) - 1"
  from assms(1) digitsIn_two_bounds [of "nat z"] have lo: "2 ^ k \<le> nat z"
    by (simp add: k_def)
  from assms(1) have d: "0 < digitsIn 2 (nat z)"
    by (simp add: digitsIn.simps [of 2 "nat z"])
  with floorLog_two_int [OF assms(1)] have fl: "floorLog 2 (of_int z) = int k"
    by (simp add: k_def)
  from exponent_bound [OF lo assms(2)] have k53: "k \<le> 53" .
  have p: "max (int k - 52) (- 1074) = int k - 52" by simp
  have v: "of_int (roundHalfEven (of_int z / pow2 (int k - 52))) * pow2 (int k - 52)
             = (of_int z :: rat)"
  proof (cases "k \<le> 52")
    case True
    then show ?thesis by (rule magnitude_small)
  next
    case False
    with k53 have k: "k = 53" by simp
    from lo k have "(2::nat) ^ 53 \<le> nat z" by simp
    then have "int ((2::nat) ^ 53) \<le> int (nat z)" by (simp only: of_nat_le_iff)
    moreover from assms(1) have "int (nat z) = z" by simp
    moreover have "int ((2::nat) ^ 53) = 2 ^ 53" by simp
    ultimately have "2 ^ 53 \<le> z" by (simp only:)
    with assms(2) have z: "z = 2 ^ 53" by simp
    from magnitude_top [OF z] k show ?thesis by simp
  qed
  from assms(1) have nz: "(of_int z :: rat) \<noteq> 0" and ab: "\<bar>of_int z :: rat\<bar> = of_int z"
    and nn: "\<not> (of_int z :: rat) < 0"
    by simp_all
  have m: "roundedMagnitude (of_int z) = of_int z"
    unfolding roundedMagnitude_def Let_def fl p v ..
  show ?thesis
    unfolding roundDouble_def Let_def ab m
    using nz nn below_overflow [OF assms(2)] by (simp only: if_False)
qed

lemma roundedMagnitude_int:
  assumes "0 < z" and "z \<le> 2 ^ 53"
  shows "roundedMagnitude (of_int z) = of_int z"
  using roundDouble_pos_int [OF assms] assms(1) below_overflow [OF assms(2)]
  by (simp add: roundDouble_def Let_def split: if_splits)

lemma roundDouble_int:
  assumes "\<bar>z\<bar> \<le> 2 ^ 53"
  shows "roundDouble (of_int z) = Fin (of_int z)"
proof (cases "z = 0")
  case True
  then show ?thesis by (simp add: roundDouble_def)
next
  case False
  show ?thesis
  proof (cases "0 < z")
    case True
    with assms roundDouble_pos_int [of z] show ?thesis by simp
  next
    case neg: False
    with False assms have n: "0 < - z" "- z \<le> 2 ^ 53" by simp_all
    from n have ab: "\<bar>of_int z :: rat\<bar> = of_int (- z)" by simp
    from n have s: "(of_int z :: rat) < 0" "(of_int z :: rat) \<noteq> 0" "\<not> 0 < (of_int z :: rat)"
      by simp_all
    have small: "\<not> pow2 1024 \<le> (of_int (- z) :: rat)" by (rule below_overflow [OF n(2)])
    show ?thesis
      unfolding roundDouble_def Let_def ab roundedMagnitude_int [OF n]
      using s small by simp
  qed
qed

lemma numberAdd_int:
  assumes "\<bar>z + d\<bar> \<le> 2 ^ 53"
  shows "numberAdd (Fin (of_int z)) (of_int d) = Fin (of_int (z + d))"
  using roundDouble_int [OF assms] by simp

section \<open>A number of one digit is printed as that digit\<close>

lemma single_digit:
  assumes "0 < d" and "d < 10"
  shows "numberToString (Fin (of_nat d)) = [digitChar d]"
proof -
  have fl: "floorLog 10 (of_nat d) = 0"
  proof -
    have q: "quotient_of (of_nat d :: rat) = (int d, 1)"
      by simp
    have dd: "digitsIn 10 d = 1"
      using assms by (simp add: digitsIn.simps [of 10 d] digitsIn.simps [of 10 0])
    have d1: "digitsIn 10 (Suc 0) = 1"
      by (simp add: digitsIn.simps [of 10 "Suc 0"] digitsIn.simps [of 10 0])
    from assms have "(1::rat) \<le> of_nat d" by simp
    then show ?thesis by (simp add: floorLog_def q dd d1)
  qed
  have small: "\<bar>int d\<bar> \<le> 2 ^ 53" "\<bar>int d + 1\<bar> \<le> 2 ^ 53"
    using assms by simp_all
  have reads: "readsBack (of_nat d) (int d) 0"
    using roundDouble_int [OF small(1)] by (simp add: readsBack_def pow10_def)
  have misses: "\<not> readsBack (of_nat d) (int d + 1) 0"
    using roundDouble_int [OF small(2)] by (simp add: readsBack_def pow10_def)
  have fl0: "\<lfloor>(of_nat d :: rat) / pow10 0\<rfloor> = int d"
    by (simp add: pow10_def)
  have sh: "shortest (of_nat d) 1 (Suc 0) = (int d, 0)"
    by (subst shortest.simps) (simp add: Let_def fl0 reads misses)
  have digits: "showNat d = [digitChar d]"
    using assms by (simp add: showNat.simps [of d])
  have strip: "stripZeros [digitChar d] = [digitChar d]"
    by (simp add: stripZeros.simps [of "[digitChar d]"])
  from assms have pos: "(of_nat d :: rat) \<noteq> 0" "\<not> (of_nat d :: rat) < 0" by simp_all
  show ?thesis
    using pos by (simp add: showPositive_def fl sh digits strip layout_def)
qed

lemma numberToString_digits:
  "numberToString (Fin 1) = ''1''" "numberToString (Fin 2) = ''2''"
  "numberToString (Fin 3) = ''3''" "numberToString (Fin 6) = ''6''"
  "numberToString (Fin 9) = ''9''"
  using single_digit [of 1] single_digit [of 2] single_digit [of 3] single_digit [of 6]
    single_digit [of 9]
  by (simp_all add: digitChar_def)

lemma showPositive_digits:
  "showPositive 1 = ''1''" "showPositive 2 = ''2''" "showPositive 3 = ''3''"
  "showPositive 6 = ''6''" "showPositive 9 = ''9''"
  using numberToString_digits by simp_all

lemma roundDouble_numeral:
  "numeral n \<le> (2 ^ 53 :: int) \<Longrightarrow> roundDouble (numeral n) = Fin (numeral n)"
  using roundDouble_int [of "numeral n"] by simp

section \<open>The accumulator only grows\<close>

text \<open>
  Whatever the accumulator holds when a traversal starts stays in front, untouched: the
  traversal fails with the same error or appends the same descriptors.
\<close>

lemma forIn_prefix:
  shows "\<forall>a. forIn (a @ accumulator) obj es depth req =
           map_sum id ((@) a) (forIn accumulator obj es depth req)"
    and "\<forall>a. forEachMember (a @ accumulator) ms depth =
           map_sum id ((@) a) (forEachMember accumulator ms depth)"
proof (induction accumulator obj es depth req and accumulator ms depth
       rule: forIn_forEachMember.induct)
  case (1 accumulator obj depth requiredItems)
  show ?case by simp
next
  case (2 accumulator obj name item rest depth requiredItems)
  show ?case
  proof (cases "hasOwnPropertyCall obj name")
    case (Inl e)
    then show ?thesis by simp
  next
    case (Inr b)
    show ?thesis
    proof (cases "b \<and> item \<noteq> JNull")
      case False
      with Inr show ?thesis by (cases b) auto
    next
      case True
      then have bT: "b = True" and nn: "item \<noteq> JNull" by simp_all
      note IH = "2.IH" [OF Inr bT nn]
      let ?t = "getProp item ''type''"
      consider (object) "?t = Some (JStr ''object'')"
        | (string) "?t = Some (JStr ''string'')"
        | (number) "?t = Some (JStr ''number'')"
        | (integer) "?t = Some (JStr ''integer'')"
        | (boolean) "?t = Some (JStr ''boolean'')"
        | (array) "?t = Some (JStr ''array'')"
        | (other) "?t \<noteq> Some (JStr ''object'')" "?t \<noteq> Some (JStr ''string'')"
            "?t \<noteq> Some (JStr ''number'')" "?t \<noteq> Some (JStr ''integer'')"
            "?t \<noteq> Some (JStr ''boolean'')" "?t \<noteq> Some (JStr ''array'')"
        by blast
      then show ?thesis
      proof cases
        case object
        note inner = IH(1) [OF object] and after = IH(2) [OF object]
        show ?thesis
        proof (cases "forIn accumulator (getProp item ''properties'')
                        (forInEntries (getProp item ''properties'')) (depth + 1)
                        (getProp item ''required'')")
          case (Inl e)
          with inner Inr bT nn object show ?thesis by simp
        next
          case (Inr acc')
          with inner after [OF Inr] \<open>hasOwnPropertyCall obj name = Inr b\<close> bT nn object
          show ?thesis by simp
        qed
      next
        case string
        then have neq: "?t \<noteq> Some (JStr ''object'')" by simp
        note after = IH(3) [OF neq string]
        show ?thesis
        proof (cases "stringLeaf name depth item requiredItems")
          case (Inl e)
          with Inr bT nn string show ?thesis by simp
        next
          case (Inr d)
          with after [OF Inr] \<open>hasOwnPropertyCall obj name = Inr b\<close> bT nn string
          show ?thesis by simp
        qed
      next
        case number
        then have neq: "?t \<noteq> Some (JStr ''object'')" "?t \<noteq> Some (JStr ''string'')"
          by simp_all
        note after = IH(4) [OF neq number]
        show ?thesis
        proof (cases "numberLeaf ''number'' name depth item requiredItems")
          case (Inl e)
          with Inr bT nn number show ?thesis by simp
        next
          case (Inr d)
          with after [OF Inr] \<open>hasOwnPropertyCall obj name = Inr b\<close> bT nn number
          show ?thesis by simp
        qed
      next
        case integer
        then have neq: "?t \<noteq> Some (JStr ''object'')" "?t \<noteq> Some (JStr ''string'')"
            "?t \<noteq> Some (JStr ''number'')"
          by simp_all
        note after = IH(5) [OF neq integer]
        show ?thesis
        proof (cases "numberLeaf ''integer'' name depth item requiredItems")
          case (Inl e)
          with Inr bT nn integer show ?thesis by simp
        next
          case (Inr d)
          with after [OF Inr] \<open>hasOwnPropertyCall obj name = Inr b\<close> bT nn integer
          show ?thesis by simp
        qed
      next
        case boolean
        then have neq: "?t \<noteq> Some (JStr ''object'')" "?t \<noteq> Some (JStr ''string'')"
            "?t \<noteq> Some (JStr ''number'')" "?t \<noteq> Some (JStr ''integer'')"
          by simp_all
        note after = IH(6) [OF neq boolean]
        show ?thesis
        proof (cases "booleanLeaf name depth item requiredItems")
          case (Inl e)
          with Inr bT nn boolean show ?thesis by simp
        next
          case (Inr d)
          with after [OF Inr] \<open>hasOwnPropertyCall obj name = Inr b\<close> bT nn boolean
          show ?thesis by simp
        qed
      next
        case array
        then have neq: "?t \<noteq> Some (JStr ''object'')" "?t \<noteq> Some (JStr ''string'')"
            "?t \<noteq> Some (JStr ''number'')" "?t \<noteq> Some (JStr ''integer'')"
            "?t \<noteq> Some (JStr ''boolean'')"
          by simp_all
        show ?thesis
        proof (cases "truthy (getProp item ''items'')")
          case False
          with Inr bT nn array show ?thesis by (simp split: sum.splits)
        next
          case True
          then have tt: "\<not> \<not> truthy (getProp item ''items'')" by simp
          show ?thesis
          proof (cases "\<exists>members. getProp item ''items'' = Some (JArr members)")
            case False
            with Inr bT nn array True show ?thesis
              by (simp split: option.splits json.splits)
          next
            case True
            then obtain members where ms: "getProp item ''items'' = Some (JArr members)"
              by blast
            note inner = IH(7) [OF neq array tt ms refl]
              and after = IH(8) [OF neq array tt ms refl]
            show ?thesis
            proof (cases "forEachMember accumulator members (depth + 1)")
              case (Inl e)
              with inner \<open>hasOwnPropertyCall obj name = Inr b\<close> bT nn array ms
              show ?thesis by simp
            next
              case (Inr acc')
              with inner after [OF Inr] \<open>hasOwnPropertyCall obj name = Inr b\<close> bT nn array ms
              show ?thesis by simp
            qed
          qed
        qed
      next
        case other
        note after = IH(9) [OF other]
        with Inr bT nn other show ?thesis by simp
      qed
    qed
  qed
next
  case (3 accumulator depth)
  show ?case by simp
next
  case (4 accumulator v vs depth)
  note inner = "4.IH"(1) and after = "4.IH"(2)
  show ?case
  proof (cases "forIn accumulator (Some v) (forInEntries (Some v)) depth None")
    case (Inl e)
    with inner show ?thesis by simp
  next
    case (Inr acc')
    with inner after [OF Inr] show ?thesis by simp
  qed
qed

lemma forIn_extends:
  assumes "forIn accumulator obj es depth req = Inr out"
  shows "\<exists>more. forIn [] obj es depth req = Inr more \<and> out = accumulator @ more"
proof -
  have "forIn (accumulator @ []) obj es depth req =
          map_sum id ((@) accumulator) (forIn [] obj es depth req)"
    using forIn_prefix(1) [of "[]" obj es depth req] by blast
  with assms show ?thesis by (cases "forIn [] obj es depth req") auto
qed

section \<open>One step of the loop, by the type of the property\<close>



lemma forIn_number:
  assumes "hasOwnPropertyCall obj name = Inr True"
    and "getProp item ''type'' = Some (JStr t)" and "t = ''number'' \<or> t = ''integer''"
  shows "forIn accumulator obj ((name, item) # rest) depth req =
           (case numberLeaf t name depth item req of
              Inl e \<Rightarrow> Inl e
            | Inr d \<Rightarrow> forIn (accumulator @ [d]) obj rest depth req)"
proof -
  from assms(2) have "item \<noteq> JNull" by auto
  with assms show ?thesis by auto
qed



lemma emitted_then_rest:
  assumes "(case leaf of Inl e \<Rightarrow> Inl e | Inr d \<Rightarrow> forIn (accumulator @ [d]) obj rest depth req)
             = Inr out"
  shows "\<exists>d more. leaf = Inr d \<and> out = accumulator @ [d] @ more"
proof (cases leaf)
  case (Inl e)
  with assms show ?thesis by simp
next
  case (Inr d)
  with assms have "forIn (accumulator @ [d]) obj rest depth req = Inr out" by simp
  from forIn_extends [OF this] Inr show ?thesis by auto
qed


lemma number_emitted:
  assumes "hasOwnPropertyCall obj name = Inr True"
    and "getProp item ''type'' = Some (JStr t)" and "t = ''number'' \<or> t = ''integer''"
    and "forIn accumulator obj ((name, item) # rest) depth req = Inr out"
  shows "\<exists>d. numberLeaf t name depth item req = Inr d \<and> emits accumulator out d"
proof -
  note step = assms(4) [unfolded forIn_number [OF assms(1,2,3)]]
  from emitted_then_rest [OF step] show ?thesis
    by (auto simp: emits_def)
qed



section \<open>The parts of a descriptor\<close>

lemma createDocParameter_parts:
  assumes "createDocParameter name type sizeMin sizeMax allowedValues isRequired defaultValue
             description = Inr out"
  shows "\<exists>sized allowed descr.
           sizeSuffix sizeMin sizeMax = Inr sized \<and> allowedSuffix allowedValues = Inr allowed
           \<and> renderOrEmpty description = Inr descr
           \<and> out = ''{'' @ type @ sized @ allowed @ ''} ''
                     @ nameExpr name isRequired defaultValue @ '' '' @ descr"
  using assms by (auto simp: createDocParameter_def split: sum.splits)

lemma renderOrEmpty_bound:
  "isNumericBound v \<Longrightarrow> renderOrEmpty v = Inr (spec_bound_text v)"
  by (cases v rule: isNumericBound.cases) (auto simp: renderOrEmpty_def orElse_def)

lemma sizeSuffix_numeric:
  "isNumericBound lo \<Longrightarrow> isNumericBound hi \<Longrightarrow> sizeSuffix lo hi = Inr (spec_size_suffix lo hi)"
  by (simp add: sizeSuffix_def spec_size_suffix_def renderOrEmpty_bound)



lemma numberLeaf_parts:
  assumes "numberLeaf t name depth item req = Inr d"
  shows "\<exists>lo hi isRequired sized allowed descr.
           effectiveMinimum item = Inr lo \<and> effectiveMaximum item = Inr hi
           \<and> requiredIncludes req name = Inr isRequired
           \<and> sizeSuffix lo hi = Inr sized
           \<and> allowedSuffix (getProp item ''enum'') = Inr allowed
           \<and> d = ''{'' @ t @ sized @ allowed @ ''} ''
                   @ nameExpr (padStart name depth) isRequired (getProp item ''default'')
                   @ '' '' @ descr"
proof -
  from assms obtain lo hi isRequired where
    l: "effectiveMinimum item = Inr lo" and h: "effectiveMaximum item = Inr hi"
    and r: "requiredIncludes req name = Inr isRequired"
    and c: "createDocParameter (padStart name depth) t lo hi (getProp item ''enum'') isRequired
              (getProp item ''default'') (describedBy item) = Inr d"
    by (auto simp: numberLeaf_def split: sum.splits)
  from createDocParameter_parts [OF c] l h r show ?thesis by blast
qed




lemma number_leaf_rendered:
  assumes "hasOwnPropertyCall obj name = Inr True"
    and "getProp item ''type'' = Some (JStr t)" and "t = ''number'' \<or> t = ''integer''"
    and "effectiveMinimum item = Inr lo" and "effectiveMaximum item = Inr hi"
    and "isNumericBound lo" and "isNumericBound hi"
    and "forIn accumulator obj ((name, item) # rest) depth req = Inr out"
  shows "\<exists>allowed tail.
           allowedSuffix (getProp item ''enum'') = Inr allowed
           \<and> emits accumulator out (''{'' @ t @ spec_size_suffix lo hi @ allowed @ ''} '' @ tail)"
proof -
  from number_emitted [OF assms(1,2,3,8)] obtain d where
    d: "numberLeaf t name depth item req = Inr d" and e: "emits accumulator out d"
    by blast
  from numberLeaf_parts [OF d] assms(4,5) sizeSuffix_numeric [OF assms(6,7)] e
  show ?thesis by auto
qed

section \<open>An array of schemas yields nothing for its member schemas\<close>

text \<open>
  Claim C1 says that for an \<open>array\<close> node whose \<open>items\<close> is a sequence of schemas
  the Walker yields the descriptors of each member schema's fields. Line 154 hands the
  member schema itself to the Walker where a property mapping is expected (the
  \<open>object\<close> branch, line 99, hands over \<open>item.properties\<close>): the names the loop sees
  are the member's keywords \<open>type\<close> and \<open>properties\<close>, whose values have no type
  the switch knows. For \<open>items: [{type: object, properties: {x: {type: string}}},
  {type: string}]\<close> nothing is yielded: not for the array field, as the claim says,
  and not for the field \<open>x\<close> of the first member either.
\<close>

theorem member_schema_fields_not_described:
  "extractArgumentsFromSchema
     (JObj [(''type'', JStr ''object''),
            (''properties'',
             JObj [(''list'',
                    JObj [(''type'', JStr ''array''),
                          (''items'',
                           JArr [JObj [(''type'', JStr ''object''),
                                       (''properties'',
                                        JObj [(''x'', JObj [(''type'', JStr ''string'')])])],
                                 JObj [(''type'', JStr ''string'')]])])])])
   = Inr []"
  by code_simp
section \<open>An array field without items ends the loop of its object\<close>

text \<open>
  Claim C2 says that every property of a mapping is visited, and that a leaf descriptor
  for an \<open>array\<close> without \<open>items\<close> does not keep later siblings from being visited.
  Line 142 returns from the function with the descriptor: for the properties
  \<open>{a: {type: array}, b: {type: string}}\<close> the transformation yields the descriptor
  of \<open>a\<close> and never reaches \<open>b\<close>.
\<close>
theorem array_leaf_drops_later_siblings:
  "extractArgumentsFromSchema
     (JObj [(''type'', JStr ''object''),
            (''properties'', JObj [(''a'', JObj [(''type'', JStr ''array'')]),
                                   (''b'', JObj [(''type'', JStr ''string'')])])])
   = Inr [''{array} [a] '']"
  by code_simp
section \<open>Names are padded to a width, not by a count\<close>

text \<open>
  Claim C3 says that a name at depth d is rendered with d padding characters in front, and
  that the nested schema \<open>{a: {type: object, properties: {b: {type: string}},
  required: [b]}}\<close> yields one descriptor for \<open>b\<close> with one unit of padding, marked
  required. Line 95 hands the depth to \<open>padStart\<close> as the total length to pad to: the
  one descriptor is there and is marked required, but \<open>b\<close> is already one character
  long and gets no padding at depth 1.
\<close>
theorem nested_name_not_padded:
  "extractArgumentsFromSchema
     (JObj [(''type'', JStr ''object''),
            (''properties'',
             JObj [(''a'', JObj [(''type'', JStr ''object''),
                                 (''properties'', JObj [(''b'', JObj [(''type'', JStr ''string'')])]),
                                 (''required'', JArr [JStr ''b''])])])])
   = Inr [''{string} b '']"
  by code_simp
section \<open>Exclusive numeric bounds\<close>

text \<open>
  Claim C4, amended. For a \<open>number\<close> or \<open>integer\<close> node whose \<open>minimum\<close> is a
  number other than zero and whose \<open>exclusiveMinimum\<close> is truthy, the effective lower
  bound is \<open>minimum + 1\<close> as JavaScript adds (the double nearest to the sum), which is
  exactly \<open>minimum + 1\<close> for an integer minimum as long as the sum does not exceed
  \<open>2^53\<close> in magnitude. In the same way a \<open>maximum\<close> other than zero with a truthy
  \<open>exclusiveMaximum\<close> gives the effective upper bound \<open>maximum - 1\<close>. A minimum or
  maximum that is absent or zero gives no bound, whatever the exclusive flag (lines 115
  and 116 test the bound for truth first). The descriptor of the node renders the
  effective bounds in its size suffix, leaving out a bound that is absent or zero:
  \<open>exclusiveMinimum\<close> true with minimum 5 renders the lower bound 6, and
  \<open>exclusiveMaximum\<close> true with maximum 10 renders the upper bound 9.
\<close>

theorem exclusive_bounds:
  "(getProp item ''minimum'' = Some (JNum (Fin q)) \<and> q \<noteq> 0
      \<and> truthy (getProp item ''exclusiveMinimum'') \<longrightarrow>
        effectiveMinimum item = Inr (Some (JNum (roundDouble (q + 1)))))
   \<and> (getProp item ''minimum'' = Some (JNum (Fin (of_int z))) \<and> z \<noteq> 0 \<and> \<bar>z + 1\<bar> \<le> 2 ^ 53
      \<and> truthy (getProp item ''exclusiveMinimum'') \<longrightarrow>
        effectiveMinimum item = Inr (Some (JNum (Fin (of_int (z + 1))))))
   \<and> (\<not> truthy (getProp item ''minimum'') \<longrightarrow> effectiveMinimum item = Inr (Some JNull))
   \<and> (getProp item ''maximum'' = Some (JNum (Fin r)) \<and> r \<noteq> 0
      \<and> truthy (getProp item ''exclusiveMaximum'') \<longrightarrow>
        effectiveMaximum item = Inr (Some (JNum (roundDouble (r - 1)))))
   \<and> (getProp item ''maximum'' = Some (JNum (Fin (of_int y))) \<and> y \<noteq> 0 \<and> \<bar>y - 1\<bar> \<le> 2 ^ 53
      \<and> truthy (getProp item ''exclusiveMaximum'') \<longrightarrow>
        effectiveMaximum item = Inr (Some (JNum (Fin (of_int (y - 1))))))
   \<and> (\<not> truthy (getProp item ''maximum'') \<longrightarrow> effectiveMaximum item = Inr (Some JNull))
   \<and> (hasOwnPropertyCall obj name = Inr True
      \<and> getProp item ''type'' = Some (JStr t) \<and> (t = ''number'' \<or> t = ''integer'')
      \<and> effectiveMinimum item = Inr lo \<and> effectiveMaximum item = Inr hi
      \<and> isNumericBound lo \<and> isNumericBound hi
      \<and> forIn accumulator obj ((name, item) # rest) depth req = Inr out \<longrightarrow>
        (\<exists>allowed tail.
           allowedSuffix (getProp item ''enum'') = Inr allowed
           \<and> emits accumulator out
                (''{'' @ t @ spec_size_suffix lo hi @ allowed @ ''} '' @ tail)))"
proof (intro conjI impI)
  show "effectiveMinimum item = Inr (Some (JNum (roundDouble (q + 1))))"
    if "getProp item ''minimum'' = Some (JNum (Fin q)) \<and> q \<noteq> 0
      \<and> truthy (getProp item ''exclusiveMinimum'')"
    using that by (simp add: effectiveMinimum_def)
  show "effectiveMinimum item = Inr (Some (JNum (Fin (of_int (z + 1)))))"
    if h: "getProp item ''minimum'' = Some (JNum (Fin (of_int z))) \<and> z \<noteq> 0 \<and> \<bar>z + 1\<bar> \<le> 2 ^ 53
      \<and> truthy (getProp item ''exclusiveMinimum'')"
  proof -
    from h have "\<bar>z + 1\<bar> \<le> 2 ^ 53" by simp
    from numberAdd_int [OF this] have "roundDouble (of_int z + 1) = Fin (of_int (z + 1))"
      by simp
    with h show ?thesis by (simp add: effectiveMinimum_def)
  qed
  show "effectiveMinimum item = Inr (Some JNull)" if "\<not> truthy (getProp item ''minimum'')"
    using that by (simp add: effectiveMinimum_def)
  show "effectiveMaximum item = Inr (Some (JNum (roundDouble (r - 1))))"
    if "getProp item ''maximum'' = Some (JNum (Fin r)) \<and> r \<noteq> 0
      \<and> truthy (getProp item ''exclusiveMaximum'')"
    using that by (simp add: effectiveMaximum_def minusOne_def)
  show "effectiveMaximum item = Inr (Some (JNum (Fin (of_int (y - 1)))))"
    if h: "getProp item ''maximum'' = Some (JNum (Fin (of_int y))) \<and> y \<noteq> 0 \<and> \<bar>y - 1\<bar> \<le> 2 ^ 53
      \<and> truthy (getProp item ''exclusiveMaximum'')"
  proof -
    from h have "\<bar>y + (- 1)\<bar> \<le> 2 ^ 53" by simp
    from numberAdd_int [OF this] have "roundDouble (of_int y - 1) = Fin (of_int (y - 1))"
      by simp
    with h show ?thesis by (simp add: effectiveMaximum_def minusOne_def)
  qed
  show "effectiveMaximum item = Inr (Some JNull)" if "\<not> truthy (getProp item ''maximum'')"
    using that by (simp add: effectiveMaximum_def)
  show "\<exists>allowed tail.
           allowedSuffix (getProp item ''enum'') = Inr allowed
           \<and> emits accumulator out
                (''{'' @ t @ spec_size_suffix lo hi @ allowed @ ''} '' @ tail)"
    if h: "hasOwnPropertyCall obj name = Inr True
      \<and> getProp item ''type'' = Some (JStr t) \<and> (t = ''number'' \<or> t = ''integer'')
      \<and> effectiveMinimum item = Inr lo \<and> effectiveMaximum item = Inr hi
      \<and> isNumericBound lo \<and> isNumericBound hi
      \<and> forIn accumulator obj ((name, item) # rest) depth req = Inr out"
  proof -
    note c2 = h [THEN conjunct2]
    note c3 = c2 [THEN conjunct2]
    note c4 = c3 [THEN conjunct2]
    note c5 = c4 [THEN conjunct2]
    note c6 = c5 [THEN conjunct2]
    note c7 = c6 [THEN conjunct2]
    show ?thesis
      by (rule number_leaf_rendered [OF h [THEN conjunct1] c2 [THEN conjunct1] c3 [THEN conjunct1]
            c4 [THEN conjunct1] c5 [THEN conjunct1] c6 [THEN conjunct1] c7 [THEN conjunct1]
            c7 [THEN conjunct2]])
  qed
qed

theorem exclusive_bounds_witness:
  "getProp (JObj [(''type'', JStr ''integer''), (''minimum'', JNum (Fin 5)),
                  (''exclusiveMinimum'', JBool True), (''maximum'', JNum (Fin 10)),
                  (''exclusiveMaximum'', JBool True)]) ''minimum'' = Some (JNum (Fin 5))
   \<and> truthy (getProp (JObj [(''type'', JStr ''integer''), (''minimum'', JNum (Fin 5)),
                  (''exclusiveMinimum'', JBool True), (''maximum'', JNum (Fin 10)),
                  (''exclusiveMaximum'', JBool True)]) ''exclusiveMinimum'')
   \<and> effectiveMinimum (JObj [(''type'', JStr ''integer''), (''minimum'', JNum (Fin 5)),
                  (''exclusiveMinimum'', JBool True), (''maximum'', JNum (Fin 10)),
                  (''exclusiveMaximum'', JBool True)]) = Inr (Some (JNum (Fin 6)))
   \<and> getProp (JObj [(''type'', JStr ''integer''), (''minimum'', JNum (Fin 5)),
                  (''exclusiveMinimum'', JBool True), (''maximum'', JNum (Fin 10)),
                  (''exclusiveMaximum'', JBool True)]) ''maximum'' = Some (JNum (Fin 10))
   \<and> truthy (getProp (JObj [(''type'', JStr ''integer''), (''minimum'', JNum (Fin 5)),
                  (''exclusiveMinimum'', JBool True), (''maximum'', JNum (Fin 10)),
                  (''exclusiveMaximum'', JBool True)]) ''exclusiveMaximum'')
   \<and> effectiveMaximum (JObj [(''type'', JStr ''integer''), (''minimum'', JNum (Fin 5)),
                  (''exclusiveMinimum'', JBool True), (''maximum'', JNum (Fin 10)),
                  (''exclusiveMaximum'', JBool True)]) = Inr (Some (JNum (Fin 9)))
   \<and> \<not> truthy (getProp (JObj [(''type'', JStr ''integer''), (''maximum'', JNum (Fin 0)),
                  (''exclusiveMaximum'', JBool True)]) ''maximum'')
   \<and> effectiveMaximum (JObj [(''type'', JStr ''integer''), (''maximum'', JNum (Fin 0)),
                  (''exclusiveMaximum'', JBool True)]) = Inr (Some JNull)
   \<and> forIn []
         (Some (JObj [(''n'', JObj [(''type'', JStr ''integer''), (''minimum'', JNum (Fin 5)),
                  (''exclusiveMinimum'', JBool True), (''maximum'', JNum (Fin 10)),
                  (''exclusiveMaximum'', JBool True)])]))
         [(''n'', JObj [(''type'', JStr ''integer''), (''minimum'', JNum (Fin 5)),
                  (''exclusiveMinimum'', JBool True), (''maximum'', JNum (Fin 10)),
                  (''exclusiveMaximum'', JBool True)])] 0 None
       = Inr [''{integer{6..9}} [n] '']
   \<and> (\<exists>allowed tail.
         allowedSuffix (getProp (JObj [(''type'', JStr ''integer''), (''minimum'', JNum (Fin 5)),
                  (''exclusiveMinimum'', JBool True), (''maximum'', JNum (Fin 10)),
                  (''exclusiveMaximum'', JBool True)]) ''enum'') = Inr allowed
         \<and> emits [] [''{integer{6..9}} [n] '']
              (''{'' @ ''integer''
                 @ spec_size_suffix (Some (JNum (Fin 6))) (Some (JNum (Fin 9)))
                 @ allowed @ ''} '' @ tail))
   \<and> spec_size_suffix (Some (JNum (Fin 6))) (Some (JNum (Fin 9))) = ''{6..9}''"
proof -
  let ?item = "JObj [(''type'', JStr ''integer''), (''minimum'', JNum (Fin 5)),
                  (''exclusiveMinimum'', JBool True), (''maximum'', JNum (Fin 10)),
                  (''exclusiveMaximum'', JBool True)]"
  let ?zero = "JObj [(''type'', JStr ''integer''), (''maximum'', JNum (Fin 0)),
                  (''exclusiveMaximum'', JBool True)]"
  let ?obj = "Some (JObj [(''n'', ?item)])"
  note inst = exclusive_bounds [where item = ?item and z = 5 and y = 10 and obj = ?obj
      and name = "''n''" and t = "''integer''" and lo = "Some (JNum (Fin 6))"
      and hi = "Some (JNum (Fin 9))" and accumulator = "[]" and rest = "[]" and depth = 0
      and req = None and out = "[''{integer{6..9}} [n] '']"]
  note zero = exclusive_bounds [where item = ?zero]
  have lower: "getProp ?item ''minimum'' = Some (JNum (Fin (of_int 5))) \<and> (5::int) \<noteq> 0
      \<and> \<bar>(5::int) + 1\<bar> \<le> 2 ^ 53 \<and> truthy (getProp ?item ''exclusiveMinimum'')"
    by simp
  have upper: "getProp ?item ''maximum'' = Some (JNum (Fin (of_int 10))) \<and> (10::int) \<noteq> 0
      \<and> \<bar>(10::int) - 1\<bar> \<le> 2 ^ 53 \<and> truthy (getProp ?item ''exclusiveMaximum'')"
    by simp
  have absent: "\<not> truthy (getProp ?zero ''maximum'')"
    by simp
  from inst [THEN conjunct2, THEN conjunct1] lower
  have six: "effectiveMinimum ?item = Inr (Some (JNum (Fin (of_int (5 + 1)))))"
    by (rule mp)
  from inst [THEN conjunct2, THEN conjunct2, THEN conjunct2, THEN conjunct2, THEN conjunct1] upper
  have nine: "effectiveMaximum ?item = Inr (Some (JNum (Fin (of_int (10 - 1)))))"
    by (rule mp)
  from zero [THEN conjunct2, THEN conjunct2, THEN conjunct2, THEN conjunct2, THEN conjunct2,
      THEN conjunct1] absent
  have none: "effectiveMaximum ?zero = Inr (Some JNull)"
    by (rule mp)
  from six have six': "effectiveMinimum ?item = Inr (Some (JNum (Fin 6)))" by simp
  from nine have nine': "effectiveMaximum ?item = Inr (Some (JNum (Fin 9)))" by simp
  have guard: "hasOwnPropertyCall ?obj ''n'' = Inr True"
    by (simp add: hasOwnPropertyCall_def forInEntries_def)
  have run: "forIn [] ?obj [(''n'', ?item)] 0 None = Inr [''{integer{6..9}} [n] '']"
    by (simp add: guard numberLeaf_def six' nine' requiredIncludes_def createDocParameter_def
        sizeSuffix_def allowedSuffix_def renderOrEmpty_def orElse_def nameExpr_def padStart_def
        describedBy_def showPositive_digits)
  have rendering: "hasOwnPropertyCall ?obj ''n'' = Inr True
      \<and> getProp ?item ''type'' = Some (JStr ''integer'')
      \<and> (''integer'' = ''number'' \<or> ''integer'' = ''integer'')
      \<and> effectiveMinimum ?item = Inr (Some (JNum (Fin 6)))
      \<and> effectiveMaximum ?item = Inr (Some (JNum (Fin 9)))
      \<and> isNumericBound (Some (JNum (Fin 6))) \<and> isNumericBound (Some (JNum (Fin 9)))
      \<and> forIn [] ?obj ((''n'', ?item) # []) 0 None = Inr [''{integer{6..9}} [n] '']"
    using guard six' nine' run by simp
  from inst [THEN conjunct2, THEN conjunct2, THEN conjunct2, THEN conjunct2, THEN conjunct2,
      THEN conjunct2] rendering
  have shown: "\<exists>allowed tail.
         allowedSuffix (getProp ?item ''enum'') = Inr allowed
         \<and> emits [] [''{integer{6..9}} [n] '']
              (''{'' @ ''integer''
                 @ spec_size_suffix (Some (JNum (Fin 6))) (Some (JNum (Fin 9)))
                 @ allowed @ ''} '' @ tail)"
    by (rule mp)
  have suffix: "spec_size_suffix (Some (JNum (Fin 6))) (Some (JNum (Fin 9))) = ''{6..9}''"
    by (simp add: spec_size_suffix_def showPositive_digits)
  have more: "getProp ?item ''minimum'' = Some (JNum (Fin 5))"
      "truthy (getProp ?item ''exclusiveMinimum'')"
      "getProp ?item ''maximum'' = Some (JNum (Fin 10))"
      "truthy (getProp ?item ''exclusiveMaximum'')"
    by simp_all
  show ?thesis
    by (intro conjI more six' nine' absent none run shown suffix)
qed

text \<open>
  The claim as stated fails at \<open>{type: integer, minimum: 0, exclusiveMinimum: true}\<close>:
  the effective lower bound is not 1, and no bound is rendered.
\<close>

theorem zero_minimum_counterexample:
  "truthy (getProp (JObj [(''type'', JStr ''integer''), (''minimum'', JNum (Fin 0)),
                          (''exclusiveMinimum'', JBool True)]) ''exclusiveMinimum'')
   \<and> effectiveMinimum (JObj [(''type'', JStr ''integer''), (''minimum'', JNum (Fin 0)),
                              (''exclusiveMinimum'', JBool True)])
       \<noteq> Inr (Some (JNum (Fin (0 + 1))))
   \<and> extractArgumentsFromSchema
       (JObj [(''type'', JStr ''object''),
              (''properties'',
               JObj [(''n'', JObj [(''type'', JStr ''integer''), (''minimum'', JNum (Fin 0)),
                                   (''exclusiveMinimum'', JBool True)])])])
     = Inr [''{integer} [n] '']"
  by (simp add: extractArgumentsFromSchema_def iterateObjectReqursive_def forInEntries_def
      hasOwnPropertyCall_def numberLeaf_def effectiveMinimum_def effectiveMaximum_def
      requiredIncludes_def createDocParameter_def sizeSuffix_def allowedSuffix_def
      renderOrEmpty_def orElse_def nameExpr_def padStart_def describedBy_def)
section \<open>The name segment\<close>



section \<open>Allowed values that are falsy are dropped\<close>

text \<open>
  Claim C6 says that every member of an \<open>enum\<close> sequence appears, comma-joined, in the
  allowed-values suffix. Line 80 hands \<open>filter\<close> a callback written for \<open>map\<close>: it
  returns the quoted text for a string and the member itself otherwise, so \<open>filter\<close>
  drops every member that is falsy and not a string. For an integer field with
  \<open>enum: [0, 1, 2]\<close> the suffix is \<open>="1,2"\<close>: the member \<open>0\<close> is missing. The
  suffix keeps its place after the size suffix, as the claim says.
\<close>

theorem falsy_enum_member_dropped:
  \<open>extractArgumentsFromSchema
     (JObj [(''type'', JStr ''object''),
            (''properties'',
             JObj [(''n'', JObj [(''type'', JStr ''integer''),
                                 (''enum'', JArr [JNum (Fin 0), JNum (Fin 1), JNum (Fin 2)])])])])
   = Inr [''{integer="1,2"} [n] '']\<close>
  by (simp add: extractArgumentsFromSchema_def iterateObjectReqursive_def forInEntries_def
      hasOwnPropertyCall_def numberLeaf_def effectiveMinimum_def effectiveMaximum_def
      requiredIncludes_def createDocParameter_def sizeSuffix_def allowedSuffix_def
      renderOrEmpty_def orElse_def nameExpr_def padStart_def describedBy_def
      showPositive_digits)
section \<open>The size suffix\<close>



section \<open>The entry point rejects composition\<close>

text \<open>
  Claim C8. A schema whose root holds \<open>allOf\<close> (a list of schemas, or any other value
  the guard of line 167 takes as true) makes the transformation fail with the
  composition-unsupported error. The result is the error alone: no descriptor sequence,
  not even a partial one, is returned.
\<close>
theorem allOf_rejected:
  "truthy (getProp schema ''allOf'') \<Longrightarrow>
   extractArgumentsFromSchema schema = Inl CompositionUnsupported"
  by (cases schema) (simp_all add: extractArgumentsFromSchema_def)

theorem allOf_rejected_witness:
  "truthy (getProp (JObj [(''type'', JStr ''object''),
                          (''allOf'', JArr [JObj [(''type'', JStr ''object'')]]),
                          (''properties'', JObj [(''a'', JObj [(''type'', JStr ''string'')])])])
                   ''allOf'')
   \<and> extractArgumentsFromSchema
        (JObj [(''type'', JStr ''object''),
               (''allOf'', JArr [JObj [(''type'', JStr ''object'')]]),
               (''properties'', JObj [(''a'', JObj [(''type'', JStr ''string'')])])])
       = Inl CompositionUnsupported"
proof -
  have h: "truthy (getProp (JObj [(''type'', JStr ''object''),
                          (''allOf'', JArr [JObj [(''type'', JStr ''object'')]]),
                          (''properties'', JObj [(''a'', JObj [(''type'', JStr ''string'')])])])
                   ''allOf'')"
    by simp
  from h allOf_rejected [OF h] show ?thesis by (rule conjI)
qed
section \<open>Properties of an unknown type are skipped\<close>

text \<open>
  Claim C10. Take a property that passes the guard of line 93 and has a schema node (any
  value but \<open>null\<close>) whose \<open>type\<close> is missing or is not one of the six names the
  switch knows. The loop goes on to the remaining properties with the accumulator as it
  was: no descriptor is added for the property and no error is raised for it.
\<close>
theorem unknown_type_skipped:
  assumes "hasOwnPropertyCall obj name = Inr True"
    and "item \<noteq> JNull"
    and "getProp item ''type'' \<notin>
           Some ` JStr ` {''object'', ''string'', ''number'', ''integer'', ''boolean'', ''array''}"
  shows "forIn accumulator obj ((name, item) # rest) depth requiredItems =
         forIn accumulator obj rest depth requiredItems"
  using assms by simp

theorem unknown_type_skipped_witness:
  "hasOwnPropertyCall
     (Some (JObj [(''a'', JObj [(''type'', JStr ''null'')]),
                  (''b'', JObj [(''type'', JStr ''string'')])])) ''a'' = Inr True
   \<and> JObj [(''type'', JStr ''null'')] \<noteq> JNull
   \<and> getProp (JObj [(''type'', JStr ''null'')]) ''type'' \<notin>
         Some ` JStr ` {''object'', ''string'', ''number'', ''integer'', ''boolean'', ''array''}
   \<and> forIn []
         (Some (JObj [(''a'', JObj [(''type'', JStr ''null'')]),
                      (''b'', JObj [(''type'', JStr ''string'')])]))
         [(''a'', JObj [(''type'', JStr ''null'')]), (''b'', JObj [(''type'', JStr ''string'')])]
         0 None
       = forIn []
           (Some (JObj [(''a'', JObj [(''type'', JStr ''null'')]),
                        (''b'', JObj [(''type'', JStr ''string'')])]))
           [(''b'', JObj [(''type'', JStr ''string'')])] 0 None"
proof -
  have guard: "hasOwnPropertyCall
     (Some (JObj [(''a'', JObj [(''type'', JStr ''null'')]),
                  (''b'', JObj [(''type'', JStr ''string'')])])) ''a'' = Inr True"
    by (simp add: hasOwnPropertyCall_def forInEntries_def)
  have node: "JObj [(''type'', JStr ''null'')] \<noteq> JNull"
    by simp
  have unknown: "getProp (JObj [(''type'', JStr ''null'')]) ''type'' \<notin>
         Some ` JStr ` {''object'', ''string'', ''number'', ''integer'', ''boolean'', ''array''}"
    by simp
  show ?thesis
    using guard node unknown unknown_type_skipped [OF guard node unknown]
    by blast
qed

end
